theory Spec2Isabelle
  imports Main "HOL-Library.AList"
begin

section \<open>JavaScript values\<close>

text \<open>
  The controllers handle the product service's answer as an untyped JavaScript value
  (\<^verbatim>\<open>data?.data || data?.product || null\<close>, \<^verbatim>\<open>product._isFallback\<close>), so the model keeps
  such values untyped too. Numbers are the integers: the request validation
  (\<^verbatim>\<open>Joi.number().integer().min(1)\<close>) admits only integer quantities.
\<close>

datatype js = JUndefined | JNull | JBool bool | JNum int | JStr string
  | JObj "(string \<times> js) list"

text \<open>Truthiness, as \<^verbatim>\<open>!x\<close>, \<^verbatim>\<open>||\<close> and \<^verbatim>\<open>&&\<close> read a value.\<close>

fun truthy :: "js \<Rightarrow> bool" where
  "truthy JUndefined = False"
| "truthy JNull = False"
| "truthy (JBool b) = b"
| "truthy (JNum n) = (n \<noteq> 0)"
| "truthy (JStr s) = (s \<noteq> [])"
| "truthy (JObj kvs) = True"

text \<open>
  Property access \<^verbatim>\<open>v?.k\<close>: \<^verbatim>\<open>undefined\<close> on \<^verbatim>\<open>null\<close> and \<^verbatim>\<open>undefined\<close>, and on a
  value that has no property \<^verbatim>\<open>k\<close>.
\<close>

fun js_get :: "js \<Rightarrow> string \<Rightarrow> js" where
  "js_get (JObj kvs) k = (case map_of kvs k of Some v \<Rightarrow> v | None \<Rightarrow> JUndefined)"
| "js_get v k = JUndefined"

definition js_or :: "js \<Rightarrow> js \<Rightarrow> js" where
  "js_or a b = (if truthy a then a else b)"

text \<open>
  \<^verbatim>\<open>parseInt(s) || d\<close>: the parse is \<open>None\<close> for \<^verbatim>\<open>NaN\<close> (an unset variable, a
  missing query parameter); \<^verbatim>\<open>NaN\<close> and \<^verbatim>\<open>0\<close> are falsy.
\<close>

definition parsed_or :: "int option \<Rightarrow> int \<Rightarrow> int" where
  "parsed_or p d = (case p of None \<Rightarrow> d | Some n \<Rightarrow> if n = 0 then d else n)"

text \<open>A settled promise.\<close>

datatype 'a promise = Fulfilled 'a | Rejected string

section \<open>The stock service's collections\<close>

datatype movement_type = ENTRY | EXIT

record stock_movement =
  m_productId :: string
  m_type :: movement_type
  m_quantity :: int
  m_reason :: string
  m_reference :: "string option"
  m_performedBy :: string
  m_timestamp :: int

record stock_level =
  productId :: string
  currentQuantity :: int
  lastUpdated :: int

text \<open>
  The two collections, in insertion order. Times are milliseconds (\<^verbatim>\<open>Date.now()\<close>).
  A stock level is identified by its \<open>productId\<close>: the schema gives the field a unique
  index and no code path changes it, so it stands for the document's \<^verbatim>\<open>_id\<close>.
\<close>

record db =
  stockLevels :: "stock_level list"
  stockMovements :: "stock_movement list"

definition empty_db :: db where
  "empty_db = \<lparr>stockLevels = [], stockMovements = []\<rparr>"

datatype error =
    ValidationError "string list"
  | DuplicateKey
  | DocumentNotFound
  | InsufficientStock

subsection \<open>stockLevelModel.js\<close>

definition findOne :: "db \<Rightarrow> string \<Rightarrow> stock_level option" where
  "findOne d pid = find (\<lambda>l. productId l = pid) (stockLevels d)"

text \<open>The schema's validators: \<open>productId\<close> required, \<open>currentQuantity\<close> at least 0.\<close>

definition level_errors :: "stock_level \<Rightarrow> string list" where
  "level_errors l =
     (if productId l = [] then [''Product ID is required''] else []) @
     (if currentQuantity l < 0 then [''Quantity cannot be negative''] else [])"

text \<open>\<^verbatim>\<open>StockLevel.create({productId, currentQuantity})\<close>; \<open>lastUpdated\<close> defaults to now.\<close>

definition StockLevel_create :: "db \<Rightarrow> int \<Rightarrow> string \<Rightarrow> int \<Rightarrow> error + (db \<times> stock_level)" where
  "StockLevel_create d now pid q =
     (let doc = \<lparr>productId = pid, currentQuantity = q, lastUpdated = now\<rparr> in
      if level_errors doc \<noteq> [] then Inl (ValidationError (level_errors doc))
      else if findOne d pid \<noteq> None then Inl DuplicateKey
      else Inr (d\<lparr>stockLevels := stockLevels d @ [doc]\<rparr>, doc))"

text \<open>
  \<^verbatim>\<open>doc.save()\<close> of a document read from the collection: validates, then writes the
  document's fields over the stored document of the same identity.
\<close>

definition save :: "db \<Rightarrow> stock_level \<Rightarrow> error + db" where
  "save d doc =
     (if level_errors doc \<noteq> [] then Inl (ValidationError (level_errors doc))
      else if findOne d (productId doc) = None then Inl DocumentNotFound
      else Inr (d\<lparr>stockLevels :=
             map (\<lambda>l. if productId l = productId doc then doc else l) (stockLevels d)\<rparr>))"

text \<open>
  \<^verbatim>\<open>updateQuantity(delta)\<close> on an in-memory document. The result is the document as it
  is in memory afterwards, the collections as stored afterwards, and the error thrown,
  if any. The addition happens first; the throw comes before \<^verbatim>\<open>save\<close>.
\<close>

definition updateQuantity :: "db \<Rightarrow> int \<Rightarrow> stock_level \<Rightarrow> int \<Rightarrow> stock_level \<times> db \<times> error option" where
  "updateQuantity d now doc delta =
     (let doc1 = doc\<lparr>currentQuantity := currentQuantity doc + delta\<rparr> in
      if currentQuantity doc1 < 0 then (doc1, d, Some InsufficientStock)
      else
        let doc2 = doc1\<lparr>lastUpdated := now\<rparr> in
        case save d doc2 of
          Inl e \<Rightarrow> (doc2, d, Some e)
        | Inr d' \<Rightarrow> (doc2, d', None))"

definition getOrCreate :: "db \<Rightarrow> int \<Rightarrow> string \<Rightarrow> error + (db \<times> stock_level)" where
  "getOrCreate d now pid =
     (case findOne d pid of
        Some stockLevel \<Rightarrow> Inr (d, stockLevel)
      | None \<Rightarrow> StockLevel_create d now pid 0)"

text \<open>\<^verbatim>\<open>find({currentQuantity: {$lte: threshold}}).sort({currentQuantity: 1})\<close>.\<close>

definition getLowStock :: "db \<Rightarrow> int \<Rightarrow> stock_level list" where
  "getLowStock d threshold =
     sort_key currentQuantity (filter (\<lambda>l. currentQuantity l \<le> threshold) (stockLevels d))"

subsection \<open>stockMovementModel.js\<close>

text \<open>
  The schema trims \<open>reason\<close> and \<open>reference\<close> before validating, with
  \<^verbatim>\<open>String.prototype.trim\<close>. A character of the model is a code unit below 256; the white
  space and line terminators of the language among these are the tab, the line feed, the
  vertical tab, the form feed, the carriage return, the space and the no-break space.
\<close>

definition is_space :: "char \<Rightarrow> bool" where
  "is_space c = (c = CHR '' '' \<or> c = CHR 0x09 \<or> c = CHR 0x0A \<or> c = CHR 0x0B
                 \<or> c = CHR 0x0C \<or> c = CHR 0x0D \<or> c = CHR 0xA0)"

definition trim :: "string \<Rightarrow> string" where
  "trim s = rev (dropWhile is_space (rev (dropWhile is_space s)))"

definition movement_errors :: "stock_movement \<Rightarrow> string list" where
  "movement_errors m =
     (if m_productId m = [] then [''Product ID is required''] else []) @
     (if m_quantity m < 1 then [''Quantity must be positive''] else []) @
     (if m_reason m = [] then [''Reason is required'']
      else if 200 < length (m_reason m) then [''Reason cannot exceed 200 characters'']
      else []) @
     (case m_reference m of
        None \<Rightarrow> []
      | Some r \<Rightarrow> if 100 < length r then [''Reference cannot exceed 100 characters'']
                  else []) @
     (if m_performedBy m = [] then [''Path performedBy is required.''] else [])"

text \<open>
  \<^verbatim>\<open>StockMovement.create({productId, type, quantity, reason, reference, performedBy})\<close>;
  \<open>timestamp\<close> defaults to now. A document that fails validation is not stored.
\<close>

definition StockMovement_create ::
  "db \<Rightarrow> int \<Rightarrow> string \<Rightarrow> movement_type \<Rightarrow> int \<Rightarrow> string \<Rightarrow> string option \<Rightarrow> string
     \<Rightarrow> error + (db \<times> stock_movement)" where
  "StockMovement_create d now pid ty q reason reference user =
     (let doc = \<lparr>m_productId = pid, m_type = ty, m_quantity = q, m_reason = trim reason,
                 m_reference = map_option trim reference, m_performedBy = user,
                 m_timestamp = now\<rparr> in
      if movement_errors doc \<noteq> [] then Inl (ValidationError (movement_errors doc))
      else Inr (d\<lparr>stockMovements := stockMovements d @ [doc]\<rparr>, doc))"

text \<open>
  \<^verbatim>\<open>find({productId}).sort({timestamp: -1}).limit(limit)\<close>. Among equal timestamps the
  later insertion comes first (the store leaves the order of ties open).
\<close>

definition getByProduct :: "db \<Rightarrow> string \<Rightarrow> nat \<Rightarrow> stock_movement list" where
  "getByProduct d pid limit =
     take limit (rev (sort_key m_timestamp
       (filter (\<lambda>m. m_productId m = pid) (stockMovements d))))"

section \<open>stockController.js\<close>

text \<open>
  \<^verbatim>\<open>parseInt(process.env.DEFAULT_LOW_STOCK_THRESHOLD) || 10\<close>; the argument is the parsed
  environment variable.
\<close>

definition default_threshold :: "int option \<Rightarrow> int" where
  "default_threshold env = parsed_or env 10"

text \<open>The fallback function given to \<^verbatim>\<open>getCircuitBreaker("products-service", ...)\<close>.\<close>

definition productsFallback :: "int option \<Rightarrow> js" where
  "productsFallback env =
     JObj [(''_isFallback'', JBool True),
           (''name'', JStr ''Unknown (products-service unavailable)''),
           (''sku'', JStr ''N/A''),
           (''lowStockThreshold'', JNum (default_threshold env))]"

text \<open>
  \<^verbatim>\<open>getProductInfo\<close>: its argument is the settled promise of
  \<^verbatim>\<open>productsBreaker.execute(...)\<close>. A fulfilled promise carries what the breaker returned
  (the product service's answer, or the fallback's value); a rejection is caught.
\<close>

fun getProductInfo :: "js promise \<Rightarrow> js" where
  "getProductInfo (Fulfilled data) =
     js_or (js_or (js_get data ''data'') (js_get data ''product'')) JNull"
| "getProductInfo (Rejected msg) = JNull"

text \<open>The body of an entry or exit request, with \<^verbatim>\<open>req.user.id\<close>.\<close>

record stock_request =
  r_productId :: string
  r_quantity :: int
  r_reason :: string
  r_reference :: "string option"
  r_userId :: string

datatype response =
    Created stock_movement int bool
  | NotFound
  | Insufficient int int
  | LevelInfo string int int "stock_movement list"
  | Failed error

text \<open>
  \<open>Created movement currentStock warning\<close> is the 201 answer (\<open>warning\<close>: the answer has
  the field), \<open>NotFound\<close> the 404 "Product not found", \<open>Insufficient available requested\<close>
  the 400 "Insufficient stock", \<open>LevelInfo productId currentQuantity lastUpdated
  recentMovements\<close> the answer of \<^verbatim>\<open>getProductStockLevel\<close>, and \<open>Failed e\<close> an exception
  that \<^verbatim>\<open>asyncHandler\<close> passes to the error middleware. Every controller takes the
  collections and returns them as they are stored afterwards. It also takes one time
  \<open>now\<close>, which stands for every reading of the clock while the request is handled
  (the model of overlapping requests below gives each step its own time).
\<close>

definition addStockEntry :: "db \<Rightarrow> int \<Rightarrow> js promise \<Rightarrow> stock_request \<Rightarrow> db \<times> response" where
  "addStockEntry d now lookup req =
     (let product = getProductInfo lookup in
      if \<not> truthy product then (d, NotFound)
      else
        case getOrCreate d now (r_productId req) of
          Inl e \<Rightarrow> (d, Failed e)
        | Inr (d1, stockLevel) \<Rightarrow>
            (case StockMovement_create d1 now (r_productId req) ENTRY (r_quantity req)
                    (r_reason req) (r_reference req) (r_userId req) of
               Inl e \<Rightarrow> (d1, Failed e)
             | Inr (d2, movement) \<Rightarrow>
                 (case updateQuantity d2 now stockLevel (r_quantity req) of
                    (doc, d3, Some e) \<Rightarrow> (d3, Failed e)
                  | (doc, d3, None) \<Rightarrow>
                      (d3, Created movement (currentQuantity doc)
                             (truthy (js_get product ''_isFallback''))))))"

definition removeStockExit :: "db \<Rightarrow> int \<Rightarrow> js promise \<Rightarrow> stock_request \<Rightarrow> db \<times> response" where
  "removeStockExit d now lookup req =
     (let product = getProductInfo lookup in
      if \<not> truthy product then (d, NotFound)
      else
        case getOrCreate d now (r_productId req) of
          Inl e \<Rightarrow> (d, Failed e)
        | Inr (d1, stockLevel) \<Rightarrow>
            if currentQuantity stockLevel < r_quantity req
            then (d1, Insufficient (currentQuantity stockLevel) (r_quantity req))
            else
              (case StockMovement_create d1 now (r_productId req) EXIT (r_quantity req)
                      (r_reason req) (r_reference req) (r_userId req) of
                 Inl e \<Rightarrow> (d1, Failed e)
               | Inr (d2, movement) \<Rightarrow>
                   (case updateQuantity d2 now stockLevel (- r_quantity req) of
                      (doc, d3, Some e) \<Rightarrow> (d3, Failed e)
                    | (doc, d3, None) \<Rightarrow>
                        (d3, Created movement (currentQuantity doc)
                               (truthy (js_get product ''_isFallback''))))))"

definition getProductStockLevel :: "db \<Rightarrow> int \<Rightarrow> string \<Rightarrow> db \<times> response" where
  "getProductStockLevel d now pid =
     (case getOrCreate d now pid of
        Inl e \<Rightarrow> (d, Failed e)
      | Inr (d1, stockLevel) \<Rightarrow>
          (d1, LevelInfo pid (currentQuantity stockLevel) (lastUpdated stockLevel)
                 (getByProduct d1 pid 10)))"

subsection \<open>Low-stock alerts\<close>

record alert =
  a_productId :: string
  a_productName :: js
  a_sku :: js
  a_currentQuantity :: int
  a_threshold :: js
  a_lastUpdated :: int
  a_productAvailable :: bool

record alerts_response =
  al_count :: nat
  al_threshold :: int
  al_alerts :: "alert list"
  al_warning :: "nat option"

text \<open>
  The function mapped over the low-stock items. \<open>lookup\<close> gives, for a product id, the
  settled promise of the breaker's \<^verbatim>\<open>execute\<close> for that product. The function body has no
  statement that throws, so its promise is always fulfilled.
\<close>

definition alert_for :: "(string \<Rightarrow> js promise) \<Rightarrow> int \<Rightarrow> stock_level \<Rightarrow> alert promise" where
  "alert_for lookup threshold item =
     (let product = getProductInfo (lookup (productId item)) in
      Fulfilled
        \<lparr>a_productId = productId item,
         a_productName = js_or (js_get product ''name'') (JStr ''Unknown''),
         a_sku = js_or (js_get product ''sku'') (JStr ''N/A''),
         a_currentQuantity = currentQuantity item,
         a_threshold = js_or (js_get product ''lowStockThreshold'') (JNum threshold),
         a_lastUpdated = lastUpdated item,
         a_productAvailable = (\<not> truthy (js_get product ''_isFallback''))\<rparr>)"

fun fulfilled_value :: "'a promise \<Rightarrow> 'a option" where
  "fulfilled_value (Fulfilled v) = Some v"
| "fulfilled_value (Rejected msg) = None"

text \<open>
  \<open>al_warning = Some n\<close> stands for the field
  \<^verbatim>\<open>warning: `${n} item(s) could not be fully resolved`\<close>, present when \<open>failedCount > 0\<close>.
\<close>

definition getLowStockAlerts ::
  "db \<Rightarrow> int option \<Rightarrow> int option \<Rightarrow> (string \<Rightarrow> js promise) \<Rightarrow> alerts_response" where
  "getLowStockAlerts d queryThreshold env lookup =
     (let threshold = parsed_or queryThreshold (parsed_or env 10);
          lowStockItems = getLowStock d threshold;
          settled = map (alert_for lookup threshold) lowStockItems;
          alerts = List.map_filter fulfilled_value settled;
          failedCount = length settled - length alerts
      in \<lparr>al_count = length alerts, al_threshold = threshold, al_alerts = alerts,
          al_warning = (if 0 < failedCount then Some failedCount else None)\<rparr>)"

subsection \<open>Summary\<close>

record summary =
  totalProducts :: nat
  totalQuantity :: int
  lowStockCount :: nat
  recentMovementsCount :: nat

text \<open>
  \<^verbatim>\<open>aggregate([{$group: {_id: null, total: {$sum: "$currentQuantity"}}}])\<close>: one group
  when the collection has a document, none when it is empty.
\<close>

definition aggregate_total :: "db \<Rightarrow> int list" where
  "aggregate_total d =
     (if stockLevels d = [] then [] else [sum_list (map currentQuantity (stockLevels d))])"

definition getStockSummary :: "db \<Rightarrow> int option \<Rightarrow> int \<Rightarrow> summary" where
  "getStockSummary d env now =
     (let threshold = parsed_or env 10;
          yesterday = now - 24 * 60 * 60 * 1000;
          totalQuantityAgg = aggregate_total d
      in \<lparr>totalProducts = length (stockLevels d),
          totalQuantity = (case totalQuantityAgg of
                             [] \<Rightarrow> 0
                           | group_total # rest \<Rightarrow> if group_total \<noteq> 0 then group_total else 0),
          lowStockCount = length (filter (\<lambda>l. currentQuantity l \<le> threshold) (stockLevels d)),
          recentMovementsCount =
            length (filter (\<lambda>m. yesterday \<le> m_timestamp m) (stockMovements d))\<rparr>)"

section \<open>Requests one after another, and requests that overlap\<close>

text \<open>
  What a caller of \<^verbatim>\<open>getProductStockLevel\<close> observes as the item's aggregate: the stored
  quantity, and 0 for an item that has no record yet (the record is created with 0).
\<close>

definition level_quantity :: "db \<Rightarrow> string \<Rightarrow> int" where
  "level_quantity d pid = (case findOne d pid of Some l \<Rightarrow> currentQuantity l | None \<Rightarrow> 0)"


text \<open>The state-changing requests of the service, each run to completion.\<close>

datatype operation =
    AddEntry int "js promise" stock_request
  | RemoveExit int "js promise" stock_request
  | GetLevel int string








subsection \<open>Overlapping requests\<close>

text \<open>
  Each request handler is an \<^verbatim>\<open>async\<close> function: it runs until its next \<^verbatim>\<open>await\<close> and
  then yields, and another request's handler may run before it resumes. An entry or
  exit handler awaits, in this order, \<^verbatim>\<open>getProductInfo\<close>, \<^verbatim>\<open>findOne\<close> and possibly
  \<^verbatim>\<open>create\<close> (inside \<^verbatim>\<open>getOrCreate\<close>), \<^verbatim>\<open>StockMovement.create\<close>, and \<^verbatim>\<open>save\<close> (inside
  \<^verbatim>\<open>updateQuantity\<close>). The handler of \<^verbatim>\<open>getProductStockLevel\<close> awaits \<^verbatim>\<open>findOne\<close> and
  possibly \<^verbatim>\<open>create\<close>, then \<^verbatim>\<open>getByProduct\<close>. A task records which of these the handler is
  waiting for, with the handler's local variables (\<open>product\<close>, the in-memory
  \<open>stockLevel\<close>, \<open>movement\<close>). One step performs the awaited operation on the
  collections and runs the handler up to its next \<^verbatim>\<open>await\<close>.

  \<^verbatim>\<open>create\<close> builds its document, defaults included, when it is called, and inserts it
  when it is awaited: a task that waits for a \<^verbatim>\<open>create\<close> carries the time of the call,
  which the document's \<open>lastUpdated\<close> or \<open>timestamp\<close> takes.
\<close>

datatype task =
    AwaitProduct movement_type stock_request "js promise"
  | AwaitFindOne movement_type stock_request js
  | AwaitLevelCreate movement_type stock_request js int
  | AwaitMovementCreate movement_type stock_request js stock_level int
  | AwaitSave movement_type stock_request js stock_level stock_movement
  | QueryFindOne string
  | QueryLevelCreate string int
  | QueryMovements string stock_level
  | Responded response

text \<open>
  After \<^verbatim>\<open>getOrCreate\<close>, at time \<open>now\<close>: \<^verbatim>\<open>removeStockExit\<close> checks the quantity of the
  document it holds, then both handlers call \<^verbatim>\<open>StockMovement.create\<close>.
\<close>

definition after_getOrCreate ::
  "movement_type \<Rightarrow> stock_request \<Rightarrow> js \<Rightarrow> stock_level \<Rightarrow> int \<Rightarrow> task" where
  "after_getOrCreate ty req product stockLevel now =
     (if ty = EXIT \<and> currentQuantity stockLevel < r_quantity req
      then Responded (Insufficient (currentQuantity stockLevel) (r_quantity req))
      else AwaitMovementCreate ty req product stockLevel now)"

definition signed :: "movement_type \<Rightarrow> int \<Rightarrow> int" where
  "signed ty q = (if ty = ENTRY then q else - q)"

fun step :: "db \<Rightarrow> int \<Rightarrow> task \<Rightarrow> db \<times> task" where
  "step d now (AwaitProduct ty req lookup) =
     (let product = getProductInfo lookup in
      if \<not> truthy product then (d, Responded NotFound)
      else (d, AwaitFindOne ty req product))"
| "step d now (AwaitFindOne ty req product) =
     (case findOne d (r_productId req) of
        Some stockLevel \<Rightarrow> (d, after_getOrCreate ty req product stockLevel now)
      | None \<Rightarrow> (d, AwaitLevelCreate ty req product now))"
| "step d now (AwaitLevelCreate ty req product called) =
     (case StockLevel_create d called (r_productId req) 0 of
        Inl e \<Rightarrow> (d, Responded (Failed e))
      | Inr (d1, stockLevel) \<Rightarrow> (d1, after_getOrCreate ty req product stockLevel now))"
| "step d now (AwaitMovementCreate ty req product stockLevel called) =
     (case StockMovement_create d called (r_productId req) ty (r_quantity req)
             (r_reason req) (r_reference req) (r_userId req) of
        Inl e \<Rightarrow> (d, Responded (Failed e))
      | Inr (d2, movement) \<Rightarrow>
          (let doc1 = stockLevel\<lparr>currentQuantity :=
                        currentQuantity stockLevel + signed ty (r_quantity req)\<rparr> in
           if currentQuantity doc1 < 0 then (d2, Responded (Failed InsufficientStock))
           else (d2, AwaitSave ty req product (doc1\<lparr>lastUpdated := now\<rparr>) movement)))"
| "step d now (AwaitSave ty req product doc2 movement) =
     (case save d doc2 of
        Inl e \<Rightarrow> (d, Responded (Failed e))
      | Inr d3 \<Rightarrow>
          (d3, Responded (Created movement (currentQuantity doc2)
                            (truthy (js_get product ''_isFallback'')))))"
| "step d now (QueryFindOne pid) =
     (case findOne d pid of
        Some stockLevel \<Rightarrow> (d, QueryMovements pid stockLevel)
      | None \<Rightarrow> (d, QueryLevelCreate pid now))"
| "step d now (QueryLevelCreate pid called) =
     (case StockLevel_create d called pid 0 of
        Inl e \<Rightarrow> (d, Responded (Failed e))
      | Inr (d1, stockLevel) \<Rightarrow> (d1, QueryMovements pid stockLevel))"
| "step d now (QueryMovements pid stockLevel) =
     (d, Responded (LevelInfo pid (currentQuantity stockLevel) (lastUpdated stockLevel)
                      (getByProduct d pid 10)))"
| "step d now (Responded r) = (d, Responded r)"


definition complete :: "db \<Rightarrow> int \<Rightarrow> task \<Rightarrow> db \<times> task" where
  "complete d now t =
     (case step d now t of (d1, t1) \<Rightarrow>
      case step d1 now t1 of (d2, t2) \<Rightarrow>
      case step d2 now t2 of (d3, t3) \<Rightarrow>
      case step d3 now t3 of (d4, t4) \<Rightarrow> step d4 now t4)"


fun item :: "operation \<Rightarrow> string" where
  "item (AddEntry now lookup req) = r_productId req"
| "item (RemoveExit now lookup req) = r_productId req"
| "item (GetLevel now pid) = pid"






section \<open>circuitBreaker.js\<close>

record breaker_options =
  timeout :: nat
  errorThresholdPercentage :: nat
  resetTimeout :: nat
  volumeThreshold :: nat
  rollingCountTimeout :: nat
  rollingCountBuckets :: nat

definition DEFAULT_OPTIONS :: breaker_options where
  "DEFAULT_OPTIONS =
     \<lparr>timeout = 5000, errorThresholdPercentage = 50, resetTimeout = 30000,
      volumeThreshold = 3, rollingCountTimeout = 10000, rollingCountBuckets = 10\<rparr>"

text \<open>
  The \<^verbatim>\<open>options\<close> argument is an object literal that has some of the keys; the spread
  \<^verbatim>\<open>{...DEFAULT_OPTIONS, ...options}\<close> takes a key from \<^verbatim>\<open>options\<close> when it is there.
\<close>

record options_arg =
  o_timeout :: "nat option"
  o_errorThresholdPercentage :: "nat option"
  o_resetTimeout :: "nat option"
  o_volumeThreshold :: "nat option"
  o_rollingCountTimeout :: "nat option"
  o_rollingCountBuckets :: "nat option"

definition spread :: "breaker_options \<Rightarrow> options_arg \<Rightarrow> breaker_options" where
  "spread defaults options =
     \<lparr>timeout = (case o_timeout options of Some v \<Rightarrow> v | None \<Rightarrow> timeout defaults),
      errorThresholdPercentage =
        (case o_errorThresholdPercentage options of
           Some v \<Rightarrow> v | None \<Rightarrow> errorThresholdPercentage defaults),
      resetTimeout =
        (case o_resetTimeout options of Some v \<Rightarrow> v | None \<Rightarrow> resetTimeout defaults),
      volumeThreshold =
        (case o_volumeThreshold options of Some v \<Rightarrow> v | None \<Rightarrow> volumeThreshold defaults),
      rollingCountTimeout =
        (case o_rollingCountTimeout options of
           Some v \<Rightarrow> v | None \<Rightarrow> rollingCountTimeout defaults),
      rollingCountBuckets =
        (case o_rollingCountBuckets options of
           Some v \<Rightarrow> v | None \<Rightarrow> rollingCountBuckets defaults)\<rparr>"

text \<open>
  What \<^verbatim>\<open>createCircuitBreaker\<close> builds: the object whose methods close over one
  \<^verbatim>\<open>new CircuitBreaker(httpRequest, {...})\<close>. The wrapped breaker comes from the opossum
  package, which is not part of the repository: its state is the type parameter \<open>'s\<close>,
  and its constructor the parameter \<open>construct\<close>. A fallback function is stood for by
  a value of type \<open>'f\<close>; \<^verbatim>\<open>null\<close> is \<open>None\<close>.
\<close>

record ('f, 's) breaker =
  b_name :: string
  b_options :: breaker_options
  b_fallback :: "'f option"
  b_wrapped :: 's

text \<open>
  Objects have identity, and the registry hands out references. \<open>instances\<close> is the
  store of the breakers created so far, a reference is a position in it, and
  \<open>registry\<close> is the module's \<^verbatim>\<open>Map\<close> from service name to reference, in insertion
  order.
\<close>

record ('f, 's) breakers =
  instances :: "('f, 's) breaker list"
  registry :: "(string \<times> nat) list"

definition no_breakers :: "('f, 's) breakers" where
  "no_breakers = \<lparr>instances = [], registry = []\<rparr>"

definition createCircuitBreaker ::
  "(breaker_options \<Rightarrow> 's) \<Rightarrow> ('f, 's) breakers \<Rightarrow> string \<Rightarrow> options_arg \<Rightarrow> 'f option
     \<Rightarrow> ('f, 's) breakers \<times> nat" where
  "createCircuitBreaker construct w serviceName options fallbackFn =
     (let opts = spread DEFAULT_OPTIONS options;
          b = \<lparr>b_name = serviceName, b_options = opts, b_fallback = fallbackFn,
               b_wrapped = construct opts\<rparr>
      in (w\<lparr>instances := instances w @ [b]\<rparr>, length (instances w)))"

text \<open>
  \<^verbatim>\<open>getCircuitBreaker\<close>: \<^verbatim>\<open>registry.has\<close>, \<^verbatim>\<open>registry.set\<close> and \<^verbatim>\<open>registry.get\<close> on the
  association list; \<open>None\<close> would be \<^verbatim>\<open>undefined\<close>.
\<close>

definition getCircuitBreaker ::
  "(breaker_options \<Rightarrow> 's) \<Rightarrow> ('f, 's) breakers \<Rightarrow> string \<Rightarrow> options_arg \<Rightarrow> 'f option
     \<Rightarrow> ('f, 's) breakers \<times> nat option" where
  "getCircuitBreaker construct w serviceName options fallbackFn =
     (let w1 =
            (if map_of (registry w) serviceName = None
             then (case createCircuitBreaker construct w serviceName options fallbackFn of
                     (w', r) \<Rightarrow> w'\<lparr>registry := AList.update serviceName r (registry w')\<rparr>)
             else w)
      in (w1, map_of (registry w1) serviceName))"

text \<open>
  What the modules of the service do with the registry and the breakers, one action at
  a time: a call of \<^verbatim>\<open>getCircuitBreaker\<close>, or a call of a method of the breaker at a
  reference (\<^verbatim>\<open>execute\<close>, \<^verbatim>\<open>resetBreaker\<close>), which acts on the wrapped breaker only.
\<close>

datatype ('f, 's) action =
    GetBreaker string options_arg "'f option"
  | CallMethod nat "'s \<Rightarrow> 's"

fun act :: "(breaker_options \<Rightarrow> 's) \<Rightarrow> ('f, 's) breakers \<Rightarrow> ('f, 's) action \<Rightarrow> ('f, 's) breakers" where
  "act construct w (GetBreaker serviceName options fallbackFn) =
     fst (getCircuitBreaker construct w serviceName options fallbackFn)"
| "act construct w (CallMethod r method) =
     (if r < length (instances w)
      then w\<lparr>instances := (instances w)
               [r := (instances w ! r)\<lparr>b_wrapped := method (b_wrapped (instances w ! r))\<rparr>]\<rparr>
      else w)"

definition run_actions ::
  "(breaker_options \<Rightarrow> 's) \<Rightarrow> ('f, 's) breakers \<Rightarrow> ('f, 's) action list \<Rightarrow> ('f, 's) breakers" where
  "run_actions construct w actions = foldl (act construct) w actions"

text \<open>
  \<^verbatim>\<open>getState\<close>, over the wrapped breaker's \<^verbatim>\<open>opened\<close> and \<^verbatim>\<open>halfOpen\<close> getters.
\<close>

definition getState :: "('s \<Rightarrow> bool) \<Rightarrow> ('s \<Rightarrow> bool) \<Rightarrow> 's \<Rightarrow> string" where
  "getState opened halfOpen wrapped =
     (if opened wrapped then ''OPEN'' else if halfOpen wrapped then ''HALF_OPEN'' else ''CLOSED'')"

text \<open>The options the stock controller passes for \<^verbatim>\<open>"products-service"\<close>.\<close>

definition products_options_arg :: options_arg where
  "products_options_arg =
     \<lparr>o_timeout = Some 5000, o_errorThresholdPercentage = Some 50,
      o_resetTimeout = Some 30000, o_volumeThreshold = Some 3,
      o_rollingCountTimeout = None, o_rollingCountBuckets = None\<rparr>"

subsection \<open>The wrapped breaker\<close>

text \<open>
  Modelled from the spec: the state machine of the wrapped circuit breaker (the opossum
  package's \<^verbatim>\<open>CircuitBreaker\<close>, whose source is not in the repository), after the
  specification's sections 3 and 4.2: the states, the rolling window of call outcomes,
  the counters and the time of the last transition. Time is a monotonic clock in
  milliseconds. Calls are taken one at a time, so no second caller arrives while a
  probe is in flight.
\<close>

datatype circuit_state = CLOSED | HALF_OPEN | OPEN

datatype outcome = Success | Failure | Timeout

record circuit =
  c_state :: circuit_state
  c_window :: "(nat \<times> outcome) list"
  c_lastTransition :: nat
  c_fires :: nat
  c_successes :: nat
  c_failures :: nat
  c_timeouts :: nat
  c_rejects :: nat
  c_fallbacks :: nat

text \<open>Modelled from the spec: the initial state is \<open>CLOSED\<close>, with nothing recorded.\<close>

definition new_circuit :: "breaker_options \<Rightarrow> circuit" where
  "new_circuit opts =
     \<lparr>c_state = CLOSED, c_window = [], c_lastTransition = 0, c_fires = 0, c_successes = 0,
      c_failures = 0, c_timeouts = 0, c_rejects = 0, c_fallbacks = 0\<rparr>"

text \<open>
  Modelled from the spec: the rolling window is the trailing interval of
  \<open>rollingCountTimeout\<close> milliseconds; an outcome recorded at \<open>t\<close> is in the window at
  \<open>now\<close> while \<open>now < t + rollingCountTimeout\<close>.
\<close>

definition in_window :: "breaker_options \<Rightarrow> nat \<Rightarrow> nat \<times> outcome \<Rightarrow> bool" where
  "in_window opts now e = (now < fst e + rollingCountTimeout opts)"

text \<open>Modelled from the spec: failures and timeouts count toward the failure percentage.\<close>

definition failed :: "nat \<times> outcome \<Rightarrow> bool" where
  "failed e = (snd e = Failure \<or> snd e = Timeout)"

text \<open>
  Modelled from the spec: the condition of \<open>CLOSED \<rightarrow> OPEN\<close>. The completed calls in
  the window reach the volume threshold, and the failures and timeouts among them, as
  a percentage of the completed calls, meet or exceed the error threshold.
\<close>

definition trips :: "breaker_options \<Rightarrow> (nat \<times> outcome) list \<Rightarrow> bool" where
  "trips opts w =
     (volumeThreshold opts \<le> length w \<and>
      errorThresholdPercentage opts * length w \<le> 100 * length (filter failed w))"

text \<open>
  Modelled from the spec: \<open>OPEN \<rightarrow> HALF_OPEN\<close> is driven by time. It is checked lazily
  against the clock (section 9): once the reset duration has elapsed since the breaker
  entered \<open>OPEN\<close>, the breaker is \<open>HALF_OPEN\<close>.
\<close>

definition tick :: "breaker_options \<Rightarrow> nat \<Rightarrow> circuit \<Rightarrow> circuit" where
  "tick opts now c =
     (if c_state c = OPEN \<and> c_lastTransition c + resetTimeout opts \<le> now
      then c\<lparr>c_state := HALF_OPEN, c_lastTransition := c_lastTransition c + resetTimeout opts\<rparr>
      else c)"

text \<open>
  Modelled from the spec: what the dependency does with a call that is attempted. It
  returns a value, fails, or exceeds the configured timeout.
\<close>

datatype 'a call = Returns 'a | Fails string | TimesOut

fun call_outcome :: "'a call \<Rightarrow> outcome" where
  "call_outcome (Returns v) = Success"
| "call_outcome (Fails msg) = Failure"
| "call_outcome TimesOut = Timeout"

text \<open>
  Modelled from the spec: recording an outcome puts it in the window (dropping what
  has left the window) and counts it.
\<close>

definition record_outcome :: "breaker_options \<Rightarrow> nat \<Rightarrow> outcome \<Rightarrow> circuit \<Rightarrow> circuit" where
  "record_outcome opts now out c =
     c\<lparr>c_window := filter (in_window opts now) (c_window c) @ [(now, out)],
       c_successes := c_successes c + (if out = Success then 1 else 0),
       c_failures := c_failures c + (if out = Failure then 1 else 0),
       c_timeouts := c_timeouts c + (if out = Timeout then 1 else 0)\<rparr>"

text \<open>
  Modelled from the spec: the fallback value instead of the error when a fallback is
  configured, the error otherwise.
\<close>

definition fall_back :: "'a option \<Rightarrow> string \<Rightarrow> circuit \<Rightarrow> circuit \<times> 'a promise" where
  "fall_back fallback msg c =
     (case fallback of
        Some v \<Rightarrow> (c\<lparr>c_fallbacks := c_fallbacks c + 1\<rparr>, Fulfilled v)
      | None \<Rightarrow> (c, Rejected msg))"

text \<open>
  Modelled from the spec: \<open>execute\<close> (section 4.2). In \<open>OPEN\<close> the call is not
  attempted: a rejection is recorded and the fallback returned. In \<open>CLOSED\<close> the call is
  attempted and its outcome recorded; the breaker opens when the window then meets the
  condition. In \<open>HALF_OPEN\<close> the call is the probe: a success closes the breaker and
  clears the window, a failure or timeout opens it again, and the reset duration counts
  from that moment.
\<close>

definition execute ::
  "breaker_options \<Rightarrow> 'a option \<Rightarrow> nat \<Rightarrow> 'a call \<Rightarrow> circuit \<Rightarrow> circuit \<times> 'a promise" where
  "execute opts fallback now call c0 =
     (let c = (tick opts now c0)\<lparr>c_fires := c_fires c0 + 1\<rparr> in
      case c_state c of
        OPEN \<Rightarrow>
          fall_back fallback ''DependencyUnavailableError'' (c\<lparr>c_rejects := c_rejects c + 1\<rparr>)
      | CLOSED \<Rightarrow>
          (let c1 = record_outcome opts now (call_outcome call) c;
               c2 = (if trips opts (c_window c1)
                     then c1\<lparr>c_state := OPEN, c_lastTransition := now\<rparr> else c1)
           in case call of
                Returns v \<Rightarrow> (c2, Fulfilled v)
              | Fails msg \<Rightarrow> fall_back fallback msg c2
              | TimesOut \<Rightarrow> fall_back fallback ''timeout'' c2)
      | HALF_OPEN \<Rightarrow>
          (let c1 = record_outcome opts now (call_outcome call) c in
           case call of
             Returns v \<Rightarrow>
               (c1\<lparr>c_state := CLOSED, c_lastTransition := now, c_window := []\<rparr>, Fulfilled v)
           | Fails msg \<Rightarrow> fall_back fallback msg (c1\<lparr>c_state := OPEN, c_lastTransition := now\<rparr>)
           | TimesOut \<Rightarrow>
               fall_back fallback ''timeout'' (c1\<lparr>c_state := OPEN, c_lastTransition := now\<rparr>)))"

text \<open>
  Modelled from the spec: the failure streak is the run of failures and timeouts at the
  recent end of the window.
\<close>

definition failure_streak :: "circuit \<Rightarrow> nat" where
  "failure_streak c = length (takeWhile failed (rev (c_window c)))"

text \<open>Modelled from the spec: the wrapped breaker's \<open>opened\<close> and \<open>halfOpen\<close> getters.\<close>

definition opened :: "circuit \<Rightarrow> bool" where
  "opened c = (c_state c = OPEN)"

definition halfOpen :: "circuit \<Rightarrow> bool" where
  "halfOpen c = (c_state c = HALF_OPEN)"

section \<open>Invariants and examples used below\<close>

text \<open>
  The ledger invariant: every item's aggregate is what its recorded movements add up
  to and is not negative, and no two stock levels have the same product id.
\<close>

definition unique_levels :: "db \<Rightarrow> bool" where
  "unique_levels d \<longleftrightarrow> distinct (map productId (stockLevels d))"










text \<open>Every registered reference points into the store of breakers.\<close>

definition registered :: "('f, 's) breakers \<Rightarrow> bool" where
  "registered w \<longleftrightarrow> (\<forall>n r. map_of (registry w) n = Some r \<longrightarrow> r < length (instances w))"

definition same_config :: "('f, 's) breaker \<Rightarrow> ('f, 's) breaker \<Rightarrow> bool" where
  "same_config b b' \<longleftrightarrow>
     b_name b' = b_name b \<and> b_options b' = b_options b \<and> b_fallback b' = b_fallback b"

text \<open>
  The later state still maps every name registered in the earlier one to the same
  reference, and the breaker there has the same name, options and fallback.
\<close>

definition keeps :: "('f, 's) breakers \<Rightarrow> ('f, 's) breakers \<Rightarrow> bool" where
  "keeps w w' \<longleftrightarrow>
     (\<forall>n r. map_of (registry w) n = Some r \<longrightarrow>
        map_of (registry w') n = Some r \<and> same_config (instances w ! r) (instances w' ! r))"

text \<open>
  Concrete inputs: the product service's answer for an existing product
  (\<^verbatim>\<open>{success: true, data: product}\<close>), a request for item \<open>X\<close>, and the collections after
  one entry of \<open>q\<close> units of \<open>X\<close> at time 0.
\<close>

definition widget_answer :: "js promise" where
  "widget_answer =
     Fulfilled (JObj [(''success'', JBool True),
                      (''data'', JObj [(''name'', JStr ''Widget''), (''sku'', JStr ''W-1''),
                                       (''lowStockThreshold'', JNum 10)])])"

definition request_for :: "int \<Rightarrow> stock_request" where
  "request_for q =
     \<lparr>r_productId = ''X'', r_quantity = q, r_reason = ''order'', r_reference = None,
      r_userId = ''u1''\<rparr>"

definition movement_of :: "movement_type \<Rightarrow> int \<Rightarrow> int \<Rightarrow> stock_movement" where
  "movement_of ty q t =
     \<lparr>m_productId = ''X'', m_type = ty, m_quantity = q, m_reason = ''order'',
      m_reference = None, m_performedBy = ''u1'', m_timestamp = t\<rparr>"

definition stocked :: "int \<Rightarrow> db" where
  "stocked q =
     \<lparr>stockLevels = [\<lparr>productId = ''X'', currentQuantity = q, lastUpdated = 0\<rparr>],
      stockMovements = [movement_of ENTRY q 0]\<rparr>"










text \<open>
  One item below the default threshold, for the alerts; and collections with two items
  and two movements, the first of them older than a day at time \<open>100000000\<close>.
\<close>

definition low_item :: db where
  "low_item =
     \<lparr>stockLevels = [\<lparr>productId = ''X'', currentQuantity = 2, lastUpdated = 7\<rparr>],
      stockMovements = []\<rparr>"

definition two_items :: db where
  "two_items =
     \<lparr>stockLevels = [\<lparr>productId = ''X'', currentQuantity = 12, lastUpdated = 90000000\<rparr>,
                     \<lparr>productId = ''Y'', currentQuantity = 3, lastUpdated = 0\<rparr>],
      stockMovements = [movement_of ENTRY 3 0, movement_of ENTRY 12 90000000]\<rparr>"

text \<open>
  Later actions on a registry that holds one breaker: a method call on that breaker, and
  two more \<^verbatim>\<open>getCircuitBreaker\<close> calls with other arguments. The wrapped breaker is stood
  for by a number that a method call increases.
\<close>

definition other_options_arg :: options_arg where
  "other_options_arg =
     \<lparr>o_timeout = Some 100, o_errorThresholdPercentage = Some 1, o_resetTimeout = Some 1,
      o_volumeThreshold = Some 1, o_rollingCountTimeout = Some 1,
      o_rollingCountBuckets = Some 1\<rparr>"

definition later_actions :: "(js, nat) action list" where
  "later_actions =
     [CallMethod 0 Suc,
      GetBreaker ''suppliers-service'' other_options_arg None,
      GetBreaker ''products-service'' other_options_arg None]"

text \<open>
  The products breaker after three failing calls at times 0, 1000 and 2000, with the
  controller's fallback.
\<close>

definition tripped :: circuit where
  "tripped =
     fst (execute DEFAULT_OPTIONS (Some (productsFallback None)) 2000 (Fails ''down'')
       (fst (execute DEFAULT_OPTIONS (Some (productsFallback None)) 1000 (Fails ''down'')
         (fst (execute DEFAULT_OPTIONS (Some (productsFallback None)) 0 (Fails ''down'')
           (new_circuit DEFAULT_OPTIONS))))))"

section \<open>updateQuantity\<close>

text \<open>
  C10. For every stock-level document and every delta with
  \<open>currentQuantity + delta < 0\<close>, \<open>updateQuantity\<close> throws the insufficiency error before
  any save: the stored collections are unchanged, while the in-memory document's
  \<open>currentQuantity\<close> already holds the negative sum (and its \<open>lastUpdated\<close> is untouched).
\<close>

theorem updateQuantity_negative_throws_after_mutation:
  assumes "currentQuantity doc + delta < 0"
  shows "updateQuantity d now doc delta =
           (doc\<lparr>currentQuantity := currentQuantity doc + delta\<rparr>, d, Some InsufficientStock)
         \<and> currentQuantity (fst (updateQuantity d now doc delta)) < 0
         \<and> fst (snd (updateQuantity d now doc delta)) = d"
  using assms by (simp add: updateQuantity_def Let_def)

theorem updateQuantity_negative_throws_after_mutation_witness:
  "currentQuantity \<lparr>productId = ''X'', currentQuantity = 5, lastUpdated = 0\<rparr> + (- 8) < 0
   \<and> updateQuantity \<lparr>stockLevels = [\<lparr>productId = ''X'', currentQuantity = 5, lastUpdated = 0\<rparr>],
                      stockMovements = []\<rparr> 1000
        \<lparr>productId = ''X'', currentQuantity = 5, lastUpdated = 0\<rparr> (- 8)
     = (\<lparr>productId = ''X'', currentQuantity = - 3, lastUpdated = 0\<rparr>,
        \<lparr>stockLevels = [\<lparr>productId = ''X'', currentQuantity = 5, lastUpdated = 0\<rparr>],
         stockMovements = []\<rparr>,
        Some InsufficientStock)"
  using updateQuantity_negative_throws_after_mutation
    [of "\<lparr>productId = ''X'', currentQuantity = 5, lastUpdated = 0\<rparr>" "- 8"
        "\<lparr>stockLevels = [\<lparr>productId = ''X'', currentQuantity = 5, lastUpdated = 0\<rparr>],
          stockMovements = []\<rparr>" 1000]
  by simp

section \<open>The collections under the model's operations\<close>


lemma findOne_NoneD: "findOne d pid = None \<Longrightarrow> pid \<notin> productId ` set (stockLevels d)"
  by (auto simp: findOne_def find_None_iff)


lemma find_append_new:
  "find P (ls @ [x]) =
     (case find P ls of Some y \<Rightarrow> Some y | None \<Rightarrow> if P x then Some x else None)"
  by (induction ls) auto




lemma getOrCreate_total:
  assumes "pid \<noteq> []"
  shows "getOrCreate d now pid =
          (case findOne d pid of
             Some l \<Rightarrow> Inr (d, l)
           | None \<Rightarrow>
               Inr (d\<lparr>stockLevels := stockLevels d @
                         [\<lparr>productId = pid, currentQuantity = 0, lastUpdated = now\<rparr>]\<rparr>,
                    \<lparr>productId = pid, currentQuantity = 0, lastUpdated = now\<rparr>))"
  using assms
  by (simp add: getOrCreate_def StockLevel_create_def level_errors_def Let_def
      split: option.splits)

lemma getOrCreate_Inr:
  assumes "getOrCreate d now pid = Inr (d1, l)"
  shows "findOne d1 pid = Some l \<and> stockMovements d1 = stockMovements d
         \<and> (\<forall>p. level_quantity d1 p = level_quantity d p)
         \<and> currentQuantity l = level_quantity d pid
         \<and> (unique_levels d \<longrightarrow> unique_levels d1)"
proof (cases "findOne d pid")
  case None
  with assms have l: "l = \<lparr>productId = pid, currentQuantity = 0, lastUpdated = now\<rparr>"
    and d1: "d1 = d\<lparr>stockLevels := stockLevels d @ [l]\<rparr>"
    by (auto simp: getOrCreate_def StockLevel_create_def Let_def split: if_splits)
  have "\<And>p. level_quantity d1 p = level_quantity d p"
    using None
    by (auto simp: level_quantity_def findOne_def d1 l find_append_new split: option.splits)
  moreover have "findOne d1 pid = Some l"
    using None by (simp add: findOne_def d1 l find_append_new)
  moreover have "unique_levels d \<longrightarrow> unique_levels d1"
    using findOne_NoneD[OF None] by (simp add: unique_levels_def d1 l)
  ultimately show ?thesis using None by (simp add: d1 l level_quantity_def)
next
  case (Some l0)
  with assms show ?thesis by (simp add: getOrCreate_def level_quantity_def)
qed








section \<open>Requests handled one at a time keep the ledger invariant\<close>










section \<open>Overlapping handlers\<close>

text \<open>
  A task stepped to completion at one time is the handler: the steps are the
  controller's code cut at its awaits.
\<close>

lemma complete_entry:
  "complete d now (AwaitProduct ENTRY req lookup) =
     (case addStockEntry d now lookup req of (d', r) \<Rightarrow> (d', Responded r))"
  by (auto simp: complete_def addStockEntry_def getOrCreate_def after_getOrCreate_def
      updateQuantity_def signed_def Let_def split: option.splits sum.splits prod.splits)

lemma complete_exit:
  "complete d now (AwaitProduct EXIT req lookup) =
     (case removeStockExit d now lookup req of (d', r) \<Rightarrow> (d', Responded r))"
  by (auto simp: complete_def removeStockExit_def getOrCreate_def after_getOrCreate_def
      updateQuantity_def signed_def Let_def split: option.splits sum.splits prod.splits)

lemma complete_query:
  "complete d now (QueryFindOne pid) =
     (case getProductStockLevel d now pid of (d', r) \<Rightarrow> (d', Responded r))"
  by (auto simp: complete_def getProductStockLevel_def getOrCreate_def
      split: option.splits sum.splits prod.splits)







section \<open>Handlers that overlap without holding one item's document together\<close>


















section \<open>The ledger invariant\<close>




section \<open>getLevel\<close>














section \<open>Exit requests beyond the stock\<close>

text \<open>
  An exit request whose product lookup yields a product (\<open>getProductInfo\<close> returns a
  truthy value) and whose quantity exceeds the item's current aggregate quantity is
  answered 400 "Insufficient stock" with the available and the requested amounts; no
  movement is appended and every item's aggregate is unchanged; the collections are
  untouched unless the item had no record, in which case its zero record is created.
\<close>

lemma removeStockExit_insufficient:
  assumes "truthy (getProductInfo lookup)"
    and "r_productId req \<noteq> []"
    and "level_quantity d (r_productId req) < r_quantity req"
  shows "\<exists>d'. removeStockExit d now lookup req
              = (d', Insufficient (level_quantity d (r_productId req)) (r_quantity req))
          \<and> stockMovements d' = stockMovements d
          \<and> (\<forall>p. level_quantity d' p = level_quantity d p)
          \<and> (findOne d (r_productId req) \<noteq> None \<longrightarrow> d' = d)"
proof -
  obtain d1 l where g: "getOrCreate d now (r_productId req) = Inr (d1, l)"
    using getOrCreate_total[OF assms(2), of d now] by (cases "findOne d (r_productId req)") auto
  from getOrCreate_Inr[OF g] have m: "stockMovements d1 = stockMovements d"
    and q: "\<forall>p. level_quantity d1 p = level_quantity d p"
    and l: "currentQuantity l = level_quantity d (r_productId req)" by auto
  have same: "findOne d (r_productId req) \<noteq> None \<longrightarrow> d1 = d"
    using g by (auto simp: getOrCreate_def)
  have "removeStockExit d now lookup req = (d1, Insufficient (currentQuantity l) (r_quantity req))"
    using assms(1,3) g l by (simp add: removeStockExit_def)
  then show ?thesis using m q l same by auto
qed

text \<open>
  C2 fails on the code. When the remote lookup fails or the breaker is open, the breaker
  resolves with the fallback object. \<open>getProductInfo\<close> reads
  \<^verbatim>\<open>data?.data || data?.product || null\<close> from it, finds neither property, and returns
  \<^verbatim>\<open>null\<close>; \<open>removeStockExit\<close> then answers 404 "Product not found" before it reads the
  stock level, for every request and whatever the stock. With 5 units of \<open>X\<close> in stock
  an exit of 8 is answered 404 and not with the insufficiency error that carries the
  available and requested amounts; the same request with a resolved product is answered
  400 "Insufficient stock", 5 available, 8 requested. The collections are untouched in
  both cases.
\<close>

theorem removeStockExit_with_fallback_is_not_found:
  "getProductInfo (Fulfilled (productsFallback env)) = JNull
   \<and> removeStockExit d now (Fulfilled (productsFallback env)) req = (d, NotFound)
   \<and> level_quantity (stocked 5) ''X'' = 5
   \<and> removeStockExit (stocked 5) 100 (Fulfilled (productsFallback None)) (request_for 8)
       = (stocked 5, NotFound)
   \<and> removeStockExit (stocked 5) 100 widget_answer (request_for 8)
       = (stocked 5, Insufficient 5 8)"
proof -
  have "getProductInfo (Fulfilled (productsFallback env)) = JNull"
    and "removeStockExit d now (Fulfilled (productsFallback env)) req = (d, NotFound)"
    by (simp_all add: removeStockExit_def productsFallback_def js_or_def)
  moreover have "level_quantity (stocked 5) ''X'' = 5
   \<and> removeStockExit (stocked 5) 100 (Fulfilled (productsFallback None)) (request_for 8)
       = (stocked 5, NotFound)
   \<and> removeStockExit (stocked 5) 100 widget_answer (request_for 8)
       = (stocked 5, Insufficient 5 8)"
    by code_simp
  ultimately show ?thesis by blast
qed

section \<open>Exit requests, one after another and overlapping\<close>










section \<open>The product lookup and its fallback\<close>

text \<open>
  C5 fails on the code. When the remote lookup fails or the breaker is open, the breaker
  resolves with the fallback object \<^verbatim>\<open>{_isFallback: true, name, sku, lowStockThreshold}\<close>.
  \<open>getProductInfo\<close> reads \<^verbatim>\<open>data?.data || data?.product || null\<close> from it, finds neither
  property, and returns \<^verbatim>\<open>null\<close>; \<open>addStockEntry\<close> then answers 404 "Product not found",
  appends no movement and leaves the aggregate as it was. A rejected promise ends the
  same way. The entry does not succeed and no degraded-mode indicator is returned.
\<close>

theorem addStockEntry_with_fallback_is_not_found:
  "getProductInfo (Fulfilled (productsFallback env)) = JNull
   \<and> addStockEntry d now (Fulfilled (productsFallback env)) req = (d, NotFound)
   \<and> addStockEntry d now (Rejected msg) req = (d, NotFound)"
  by (simp add: addStockEntry_def productsFallback_def js_or_def)

text \<open>
  With the breaker as the specification describes it: whenever the call fails or times
  out, or the breaker is \<open>OPEN\<close>, \<open>execute\<close> resolves with the configured fallback, and
  the entry is answered 404.
\<close>

lemma execute_falls_back:
  assumes "call_outcome k \<noteq> Success \<or> c_state (tick opts now c) = OPEN"
  shows "snd (execute opts (Some v) now k c) = Fulfilled v"
  using assms
  by (cases "c_state (tick opts now c)"; cases k)
    (simp_all add: execute_def Let_def fall_back_def)

lemma addStockEntry_while_lookup_fails:
  assumes "call_outcome k \<noteq> Success \<or> c_state (tick opts now c) = OPEN"
  shows "addStockEntry d t (snd (execute opts (Some (productsFallback env)) now k c)) req
           = (d, NotFound)"
  unfolding execute_falls_back[OF assms]
  by (simp add: addStockEntry_def productsFallback_def js_or_def)

text \<open>
  An exit request ends the same way; and with a fallback configured \<open>execute\<close> never
  rejects, so the fallback object is what a failing lookup hands to \<open>getProductInfo\<close>.
\<close>

lemma removeStockExit_while_lookup_fails:
  assumes "call_outcome k \<noteq> Success \<or> c_state (tick opts now c) = OPEN"
  shows "removeStockExit d t (snd (execute opts (Some (productsFallback env)) now k c)) req
           = (d, NotFound)"
  unfolding execute_falls_back[OF assms]
  by (simp add: removeStockExit_def productsFallback_def js_or_def)

lemma execute_with_fallback_fulfils:
  "\<exists>r. snd (execute opts (Some v) now k c) = Fulfilled r"
  by (cases "c_state (tick opts now c)"; cases k)
    (simp_all add: execute_def Let_def fall_back_def)

text \<open>
  The indicator is returned only when the product value itself carries
  \<^verbatim>\<open>_isFallback\<close>, that is when the fallback object arrives wrapped as
  \<^verbatim>\<open>{data: fallback}\<close>: then the entry is recorded with the warning.
\<close>

lemma addStockEntry_warning_needs_wrapped_fallback:
  "addStockEntry empty_db 1 (Fulfilled (JObj [(''data'', productsFallback None)]))
     (request_for 10)
   = (\<lparr>stockLevels = [\<lparr>productId = ''X'', currentQuantity = 10, lastUpdated = 1\<rparr>],
       stockMovements = [movement_of ENTRY 10 1]\<rparr>,
      Created (movement_of ENTRY 10 1) 10 True)"
  by code_simp

section \<open>Low-stock alerts\<close>

lemma alerts_all_fulfilled:
  "List.map_filter fulfilled_value (map (alert_for lookup threshold) items)
     = map (\<lambda>item.
         \<lparr>a_productId = productId item,
          a_productName =
            js_or (js_get (getProductInfo (lookup (productId item))) ''name'') (JStr ''Unknown''),
          a_sku = js_or (js_get (getProductInfo (lookup (productId item))) ''sku'') (JStr ''N/A''),
          a_currentQuantity = currentQuantity item,
          a_threshold =
            js_or (js_get (getProductInfo (lookup (productId item))) ''lowStockThreshold'')
              (JNum threshold),
          a_lastUpdated = lastUpdated item,
          a_productAvailable =
            (\<not> truthy (js_get (getProductInfo (lookup (productId item))) ''_isFallback''))\<rparr>)
         items"
  by (induction items) (simp_all add: List.map_filter_simps alert_for_def Let_def)

text \<open>
  C6 fails on the code in its last part. No lookup failure aborts the batch, and the
  answer has one alert line for every stock level at or below the threshold, in the
  order of \<open>getLowStock\<close>. But the answer never includes a count of unresolved items:
  \<open>failedCount\<close> counts rejected promises, and the mapped function never rejects, because
  \<open>getProductInfo\<close> catches every failure and returns \<^verbatim>\<open>null\<close>. For one low item whose
  lookup fails, the answer lists it as "Unknown" with \<open>productAvailable\<close> true and carries
  no warning.
\<close>

theorem getLowStockAlerts_never_counts_unresolved:
  "al_warning (getLowStockAlerts d queryThreshold env lookup) = None
   \<and> map a_productId (al_alerts (getLowStockAlerts d queryThreshold env lookup))
       = map productId (getLowStock d (parsed_or queryThreshold (parsed_or env 10)))
   \<and> getLowStockAlerts low_item None None (\<lambda>pid. Rejected ''ECONNREFUSED'')
       = \<lparr>al_count = 1, al_threshold = 10,
          al_alerts = [\<lparr>a_productId = ''X'', a_productName = JStr ''Unknown'',
                        a_sku = JStr ''N/A'', a_currentQuantity = 2, a_threshold = JNum 10,
                        a_lastUpdated = 7, a_productAvailable = True\<rparr>],
          al_warning = None\<rparr>"
proof -
  have "al_warning (getLowStockAlerts d queryThreshold env lookup) = None"
    by (simp add: getLowStockAlerts_def Let_def alerts_all_fulfilled)
  moreover have "map a_productId (al_alerts (getLowStockAlerts d queryThreshold env lookup))
       = map productId (getLowStock d (parsed_or queryThreshold (parsed_or env 10)))"
    by (simp add: getLowStockAlerts_def Let_def alerts_all_fulfilled comp_def)
  moreover have "getLowStockAlerts low_item None None (\<lambda>pid. Rejected ''ECONNREFUSED'')
       = \<lparr>al_count = 1, al_threshold = 10,
          al_alerts = [\<lparr>a_productId = ''X'', a_productName = JStr ''Unknown'',
                        a_sku = JStr ''N/A'', a_currentQuantity = 2, a_threshold = JNum 10,
                        a_lastUpdated = 7, a_productAvailable = True\<rparr>],
          al_warning = None\<rparr>"
    by code_simp
  ultimately show ?thesis by blast
qed

section \<open>Summary\<close>

text \<open>
  C7. For every state of the collections, \<open>getStockSummary\<close> returns the number of stock
  level records, the sum of \<open>currentQuantity\<close> over all of them, the number of records at
  or below the default low-stock threshold, and the number of movements whose timestamp
  is not older than 24 hours; when no movement is stamped later than now, these are the
  movements in the window from now minus 24 hours to now. The function takes the
  collections, the environment's threshold and the clock, and nothing of the product
  lookup or the breaker: it makes no remote call.
\<close>

theorem getStockSummary_counts:
  "totalProducts (getStockSummary d env now) = length (stockLevels d)
   \<and> totalQuantity (getStockSummary d env now) = sum_list (map currentQuantity (stockLevels d))
   \<and> lowStockCount (getStockSummary d env now)
       = length (filter (\<lambda>l. currentQuantity l \<le> default_threshold env) (stockLevels d))
   \<and> recentMovementsCount (getStockSummary d env now)
       = length (filter (\<lambda>m. now - 86400000 \<le> m_timestamp m) (stockMovements d))
   \<and> ((\<forall>m \<in> set (stockMovements d). m_timestamp m \<le> now) \<longrightarrow>
        recentMovementsCount (getStockSummary d env now)
          = length (filter (\<lambda>m. now - 86400000 \<le> m_timestamp m \<and> m_timestamp m \<le> now)
                      (stockMovements d)))"
proof -
  have w: "filter (\<lambda>m. now - 86400000 \<le> m_timestamp m) ms
          = filter (\<lambda>m. now - 86400000 \<le> m_timestamp m \<and> m_timestamp m \<le> now) ms"
    if "\<forall>m \<in> set ms. m_timestamp m \<le> now" for ms
    using that by (induction ms) auto
  have "recentMovementsCount (getStockSummary d env now)
       = length (filter (\<lambda>m. now - 86400000 \<le> m_timestamp m) (stockMovements d))"
    by (simp add: getStockSummary_def Let_def)
  moreover have "totalProducts (getStockSummary d env now) = length (stockLevels d)"
    and "totalQuantity (getStockSummary d env now)
           = sum_list (map currentQuantity (stockLevels d))"
    and "lowStockCount (getStockSummary d env now)
       = length (filter (\<lambda>l. currentQuantity l \<le> default_threshold env) (stockLevels d))"
    by (simp_all add: getStockSummary_def aggregate_total_def default_threshold_def Let_def)
  ultimately show ?thesis using w[of "stockMovements d"] by simp
qed

theorem getStockSummary_counts_witness:
  "getStockSummary two_items None 100000000
     = \<lparr>totalProducts = 2, totalQuantity = 15, lowStockCount = 1, recentMovementsCount = 1\<rparr>"
proof -
  have h: "\<forall>m \<in> set (stockMovements two_items). m_timestamp m \<le> 100000000"
    by code_simp
  have e: "length (stockLevels two_items) = 2"
    "sum_list (map currentQuantity (stockLevels two_items)) = 15"
    "length (filter (\<lambda>l. currentQuantity l \<le> default_threshold None) (stockLevels two_items)) = 1"
    "length (filter (\<lambda>m. 100000000 - 86400000 \<le> m_timestamp m \<and> m_timestamp m \<le> 100000000)
                      (stockMovements two_items)) = 1"
    by code_simp+
  from getStockSummary_counts[of two_items None 100000000] h e
  have "totalProducts (getStockSummary two_items None 100000000) = 2"
    "totalQuantity (getStockSummary two_items None 100000000) = 15"
    "lowStockCount (getStockSummary two_items None 100000000) = 1"
    "recentMovementsCount (getStockSummary two_items None 100000000) = 1"
    by simp_all
  then show ?thesis by (cases "getStockSummary two_items None 100000000") simp
qed

section \<open>The breaker registry\<close>

lemma keeps_refl: "keeps w w"
  by (simp add: keeps_def same_config_def)

lemma keeps_trans: "keeps w w' \<Longrightarrow> keeps w' w'' \<Longrightarrow> keeps w w''"
  unfolding keeps_def same_config_def by metis

lemma keepsD:
  "keeps w w' \<Longrightarrow> map_of (registry w) n = Some r \<Longrightarrow>
     map_of (registry w') n = Some r \<and> same_config (instances w ! r) (instances w' ! r)"
  unfolding keeps_def by blast

lemma getCircuitBreaker_known:
  "map_of (registry w) n = Some r \<Longrightarrow> getCircuitBreaker construct w n opts f = (w, Some r)"
  by (simp add: getCircuitBreaker_def)

lemma getCircuitBreaker_new:
  assumes "map_of (registry w) n = None"
  shows "getCircuitBreaker construct w n opts f =
           (\<lparr>instances = instances w @
               [\<lparr>b_name = n, b_options = spread DEFAULT_OPTIONS opts, b_fallback = f,
                 b_wrapped = construct (spread DEFAULT_OPTIONS opts)\<rparr>],
             registry = AList.update n (length (instances w)) (registry w)\<rparr>,
            Some (length (instances w)))"
  using assms
  by (simp add: getCircuitBreaker_def createCircuitBreaker_def Let_def update_conv')

lemma act_keeps:
  assumes "registered w"
  shows "registered (act construct w a) \<and> keeps w (act construct w a)"
proof (cases a)
  case (GetBreaker n opts f)
  show ?thesis
  proof (cases "map_of (registry w) n")
    case (Some r)
    then show ?thesis using assms GetBreaker by (simp add: getCircuitBreaker_known keeps_refl)
  next
    case None
    show ?thesis
      unfolding GetBreaker act.simps getCircuitBreaker_new[OF None]
      using assms None
      by (auto simp: registered_def keeps_def same_config_def update_conv' nth_append
          less_Suc_eq)
  qed
next
  case (CallMethod r g)
  then show ?thesis using assms
    by (auto simp: registered_def keeps_def same_config_def nth_list_update)
qed

lemma run_actions_keeps:
  assumes "registered w"
  shows "registered (run_actions construct w actions)
       \<and> keeps w (run_actions construct w actions)"
  using assms unfolding run_actions_def
proof (induction actions arbitrary: w)
  case Nil
  then show ?case by (simp add: keeps_refl)
next
  case (Cons a actions)
  from act_keeps[OF Cons.prems, of construct a]
  have r: "registered (act construct w a)" and k: "keeps w (act construct w a)" by simp_all
  from Cons.IH[OF r] keeps_trans[OF k] show ?case by simp
qed

lemma registered_none: "registered no_breakers"
  by (simp add: registered_def no_breakers_def)

text \<open>
  C9. Take any registry the service can have reached (\<open>w0\<close>), a call of
  \<open>getCircuitBreaker\<close> for a name, and any later actions: further \<open>getCircuitBreaker\<close> calls
  for any names, and method calls on breakers. Every later \<open>getCircuitBreaker\<close> call for
  the name returns the reference the first call returned and changes nothing, whatever
  options and fallback it passes; the breaker at that reference still has the name,
  options and fallback it had after the first call, which are the first call's own
  arguments over the defaults when that call created it.
\<close>

theorem getCircuitBreaker_idempotent:
  fixes construct :: "breaker_options \<Rightarrow> 's" and f1 f2 :: "'f option"
  assumes w0: "w0 = run_actions construct no_breakers before"
    and first: "getCircuitBreaker construct w0 name o1 f1 = (w1, r1)"
    and w2: "w2 = run_actions construct w1 between"
  shows "\<exists>r. r1 = Some r \<and> r < length (instances w1)
            \<and> getCircuitBreaker construct w2 name o2 f2 = (w2, Some r)
            \<and> b_name (instances w2 ! r) = b_name (instances w1 ! r)
            \<and> b_options (instances w2 ! r) = b_options (instances w1 ! r)
            \<and> b_fallback (instances w2 ! r) = b_fallback (instances w1 ! r)
            \<and> (map_of (registry w0) name = None \<longrightarrow>
                 instances w1 ! r =
                   \<lparr>b_name = name, b_options = spread DEFAULT_OPTIONS o1, b_fallback = f1,
                    b_wrapped = construct (spread DEFAULT_OPTIONS o1)\<rparr>)"
proof -
  have r0: "registered w0"
    using run_actions_keeps[OF registered_none, of construct before] w0 by simp
  have r1w: "registered w1"
    using act_keeps[OF r0, of construct "GetBreaker name o1 f1"] first by simp
  obtain r where r: "r1 = Some r" "map_of (registry w1) name = Some r"
    and new: "map_of (registry w0) name = None \<longrightarrow>
                 instances w1 ! r =
                   \<lparr>b_name = name, b_options = spread DEFAULT_OPTIONS o1, b_fallback = f1,
                    b_wrapped = construct (spread DEFAULT_OPTIONS o1)\<rparr>"
  proof (cases "map_of (registry w0) name")
    case None
    from first show ?thesis
      unfolding getCircuitBreaker_new[OF None]
      by (intro that[of "length (instances w0)"]) (auto simp: update_conv')
  next
    case (Some q)
    from first show ?thesis
      unfolding getCircuitBreaker_known[OF Some]
      using Some by (intro that[of q]) auto
  qed
  from r1w r(2) have lt: "r < length (instances w1)" by (auto simp: registered_def)
  from run_actions_keeps[OF r1w, of construct between] w2
  have "keeps w1 w2" by simp
  from keepsD[OF this r(2)]
  have k: "map_of (registry w2) name = Some r"
    "same_config (instances w1 ! r) (instances w2 ! r)"
    by simp_all
  have "getCircuitBreaker construct w2 name o2 f2 = (w2, Some r)"
    by (rule getCircuitBreaker_known[OF k(1)])
  with r(1) lt k(2) new show ?thesis by (intro exI[of _ r]) (simp add: same_config_def)
qed

text \<open>
  The products breaker, registered first with the controller's options and fallback,
  then asked for again with other options and no fallback.
\<close>

theorem getCircuitBreaker_idempotent_witness:
  "getCircuitBreaker (\<lambda>opts. 0)
     (run_actions (\<lambda>opts. 0)
        (fst (getCircuitBreaker (\<lambda>opts. 0) no_breakers ''products-service''
                products_options_arg (Some (productsFallback None))))
        later_actions)
     ''products-service'' other_options_arg None
   = (run_actions (\<lambda>opts. 0)
        (fst (getCircuitBreaker (\<lambda>opts. 0) no_breakers ''products-service''
                products_options_arg (Some (productsFallback None))))
        later_actions,
      Some 0)
   \<and> b_options
       (instances
          (run_actions (\<lambda>opts. 0)
             (fst (getCircuitBreaker (\<lambda>opts. 0) no_breakers ''products-service''
                     products_options_arg (Some (productsFallback None))))
             later_actions) ! 0)
     = DEFAULT_OPTIONS
   \<and> b_fallback
       (instances
          (run_actions (\<lambda>opts. 0)
             (fst (getCircuitBreaker (\<lambda>opts. 0) no_breakers ''products-service''
                     products_options_arg (Some (productsFallback None))))
             later_actions) ! 0)
     = Some (productsFallback None)"
proof -
  let ?first = "getCircuitBreaker (\<lambda>opts. 0) (no_breakers :: (js, nat) breakers)
                  ''products-service'' products_options_arg (Some (productsFallback None))"
  have w0: "(no_breakers :: (js, nat) breakers) = run_actions (\<lambda>opts. 0) no_breakers []"
    by (simp add: run_actions_def)
  have fresh: "map_of (registry (no_breakers :: (js, nat) breakers)) ''products-service''
                 = None"
    by (simp add: no_breakers_def)
  have r1: "snd ?first = Some 0"
    unfolding getCircuitBreaker_new[OF fresh] by (simp add: no_breakers_def)
  have first: "?first = (fst ?first, Some 0)"
    using r1 by (cases ?first) simp
  have opts: "spread DEFAULT_OPTIONS products_options_arg = DEFAULT_OPTIONS"
    by (simp add: spread_def DEFAULT_OPTIONS_def products_options_arg_def)
  from getCircuitBreaker_idempotent[OF w0 first refl,
      of later_actions other_options_arg None] fresh opts
  show ?thesis by auto
qed

section \<open>The breaker's state machine\<close>

lemma products_options: "spread DEFAULT_OPTIONS products_options_arg = DEFAULT_OPTIONS"
  by (simp add: spread_def DEFAULT_OPTIONS_def products_options_arg_def)

lemma state_fall_back [simp]: "c_state (fst (fall_back fb msg c)) = c_state c"
  and transition_fall_back [simp]:
    "c_lastTransition (fst (fall_back fb msg c)) = c_lastTransition c"
  and window_fall_back [simp]: "c_window (fst (fall_back fb msg c)) = c_window c"
  by (simp_all add: fall_back_def split: option.splits)

lemma getState_state:
  "getState opened halfOpen c =
     (case c_state c of CLOSED \<Rightarrow> ''CLOSED'' | HALF_OPEN \<Rightarrow> ''HALF_OPEN'' | OPEN \<Rightarrow> ''OPEN'')"
  by (cases "c_state c") (simp_all add: getState_def opened_def halfOpen_def)

lemma execute_closed_failure:
  assumes "c_state c = CLOSED" "call_outcome k \<noteq> Success"
  shows "c_window (fst (execute opts fb now k c))
           = filter (in_window opts now) (c_window c) @ [(now, call_outcome k)]"
    and "c_state (fst (execute opts fb now k c)) =
          (if trips opts (filter (in_window opts now) (c_window c) @ [(now, call_outcome k)])
           then OPEN else CLOSED)"
    and "trips opts (filter (in_window opts now) (c_window c) @ [(now, call_outcome k)])
           \<Longrightarrow> c_lastTransition (fst (execute opts fb now k c)) = now"
  using assms
  by (cases k; simp add: execute_def tick_def record_outcome_def Let_def)+

text \<open>
  Three failing calls in a row, all within one rolling window, starting from the new
  breaker: the third one opens it.
\<close>

lemma three_failures_open:
  fixes k1 k2 k3 :: "'a call"
  assumes f: "call_outcome k1 \<noteq> Success" "call_outcome k2 \<noteq> Success"
      "call_outcome k3 \<noteq> Success"
    and t: "t1 \<le> t2" "t2 \<le> t3" "t3 < t1 + 10000"
    and c1: "c1 = fst (execute DEFAULT_OPTIONS fb t1 k1 (new_circuit DEFAULT_OPTIONS))"
    and c2: "c2 = fst (execute DEFAULT_OPTIONS fb t2 k2 c1)"
    and c3: "c3 = fst (execute DEFAULT_OPTIONS fb t3 k3 c2)"
  shows "c_state c1 = CLOSED \<and> c_state c2 = CLOSED \<and> c_state c3 = OPEN
       \<and> c_lastTransition c3 = t3"
proof -
  let ?o = DEFAULT_OPTIONS
  let ?c0 = "new_circuit ?o"
  have fl: "failed (t, call_outcome k1)" "failed (t, call_outcome k2)"
    "failed (t, call_outcome k3)" for t
    using f by (cases k1; cases k2; cases k3; simp add: failed_def)+
  have s0: "c_state ?c0 = CLOSED" "c_window ?c0 = []" by (simp_all add: new_circuit_def)
  have w1: "c_window c1 = [(t1, call_outcome k1)]"
    unfolding c1 using execute_closed_failure(1)[OF s0(1) f(1)] s0(2) by simp
  have s1: "c_state c1 = CLOSED"
    unfolding c1 using execute_closed_failure(2)[OF s0(1) f(1), of ?o fb t1] s0(2)
    by (simp add: trips_def DEFAULT_OPTIONS_def)
  have w2: "c_window c2 = [(t1, call_outcome k1), (t2, call_outcome k2)]"
    unfolding c2 using execute_closed_failure(1)[OF s1 f(2), of ?o fb t2] w1 t
    by (simp add: in_window_def DEFAULT_OPTIONS_def)
  have s2: "c_state c2 = CLOSED"
    unfolding c2 using execute_closed_failure(2)[OF s1 f(2), of ?o fb t2] w1 t
    by (simp add: trips_def in_window_def DEFAULT_OPTIONS_def)
  have w3: "filter (in_window ?o t3) (c_window c2) @ [(t3, call_outcome k3)]
            = [(t1, call_outcome k1), (t2, call_outcome k2), (t3, call_outcome k3)]"
    using w2 t by (simp add: in_window_def DEFAULT_OPTIONS_def)
  have tr: "trips ?o [(t1, call_outcome k1), (t2, call_outcome k2), (t3, call_outcome k3)]"
    using fl by (simp add: trips_def DEFAULT_OPTIONS_def)
  have s3: "c_state c3 = OPEN"
    unfolding c3 using execute_closed_failure(2)[OF s2 f(3), of ?o fb t3] tr
    unfolding w3 by simp
  have l3: "c_lastTransition c3 = t3"
    unfolding c3 using execute_closed_failure(3)[OF s2 f(3), of ?o t3 fb] tr
    unfolding w3 by simp
  show ?thesis using s1 s2 s3 l3 by simp
qed

lemma reset_elapsed:
  assumes "c_state c = OPEN" "c_lastTransition c + resetTimeout opts \<le> now"
  shows "c_state (tick opts now c) = HALF_OPEN"
  using assms by (simp add: tick_def)

lemma reset_pending:
  assumes "c_state c = OPEN" "now < c_lastTransition c + resetTimeout opts"
  shows "c_state (tick opts now c) = OPEN"
  using assms by (simp add: tick_def)

lemma probe_success:
  assumes "c_state (tick opts now c) = HALF_OPEN"
  shows "snd (execute opts fb now (Returns v) c) = Fulfilled v
       \<and> c_state (fst (execute opts fb now (Returns v) c)) = CLOSED
       \<and> failure_streak (fst (execute opts fb now (Returns v) c)) = 0"
  using assms by (simp add: execute_def Let_def failure_streak_def)

lemma probe_failure:
  assumes "c_state (tick opts now c) = HALF_OPEN" "call_outcome k \<noteq> Success"
  shows "c_state (fst (execute opts fb now k c)) = OPEN
       \<and> c_lastTransition (fst (execute opts fb now k c)) = now"
  using assms by (cases k) (simp_all add: execute_def Let_def record_outcome_def)

text \<open>
  C4, for the breaker as the specification describes it, under the defaults of
  \<^verbatim>\<open>circuitBreaker.js\<close> (which the products breaker's own options leave unchanged):
  volume threshold 3, error threshold 50 percent, rolling window 10000 ms, reset timeout
  30000 ms. Starting \<open>CLOSED\<close>, three consecutive failing calls (failures or timeouts)
  within one rolling window leave the breaker \<open>CLOSED\<close>, \<open>CLOSED\<close> and then \<open>OPEN\<close>. While
  less than the reset duration has passed since it opened the breaker stays \<open>OPEN\<close>; once
  the duration has elapsed the next call finds it \<open>HALF_OPEN\<close>. A successful probe in
  \<open>HALF_OPEN\<close> returns the call's value, closes the breaker and leaves no failure streak;
  a failing probe opens it again, and the reset duration counts from the probe.
\<close>

theorem breaker_state_machine:
  fixes k1 k2 k3 :: "'a call"
  assumes "call_outcome k1 \<noteq> Success" "call_outcome k2 \<noteq> Success"
      "call_outcome k3 \<noteq> Success"
    and "t1 \<le> t2" "t2 \<le> t3" "t3 < t1 + 10000"
    and "c1 = fst (execute DEFAULT_OPTIONS fb t1 k1 (new_circuit DEFAULT_OPTIONS))"
    and "c2 = fst (execute DEFAULT_OPTIONS fb t2 k2 c1)"
    and "c3 = fst (execute DEFAULT_OPTIONS fb t3 k3 c2)"
  shows "spread DEFAULT_OPTIONS products_options_arg = DEFAULT_OPTIONS
     \<and> getState opened halfOpen (new_circuit DEFAULT_OPTIONS) = ''CLOSED''
     \<and> getState opened halfOpen c1 = ''CLOSED''
     \<and> getState opened halfOpen c2 = ''CLOSED''
     \<and> getState opened halfOpen c3 = ''OPEN''
     \<and> c_lastTransition c3 = t3
     \<and> (\<forall>c now. c_state c = OPEN \<and> now < c_lastTransition c + 30000 \<longrightarrow>
           getState opened halfOpen (tick DEFAULT_OPTIONS now c) = ''OPEN'')
     \<and> (\<forall>c now. c_state c = OPEN \<and> c_lastTransition c + 30000 \<le> now \<longrightarrow>
           getState opened halfOpen (tick DEFAULT_OPTIONS now c) = ''HALF_OPEN'')
     \<and> (\<forall>c now (v :: 'a). c_state (tick DEFAULT_OPTIONS now c) = HALF_OPEN \<longrightarrow>
           snd (execute DEFAULT_OPTIONS fb now (Returns v) c) = Fulfilled v
           \<and> getState opened halfOpen (fst (execute DEFAULT_OPTIONS fb now (Returns v) c))
               = ''CLOSED''
           \<and> failure_streak (fst (execute DEFAULT_OPTIONS fb now (Returns v) c)) = 0)
     \<and> (\<forall>c now (k :: 'a call).
           c_state (tick DEFAULT_OPTIONS now c) = HALF_OPEN \<and> call_outcome k \<noteq> Success \<longrightarrow>
           getState opened halfOpen (fst (execute DEFAULT_OPTIONS fb now k c)) = ''OPEN''
           \<and> c_lastTransition (fst (execute DEFAULT_OPTIONS fb now k c)) = now)"
proof -
  have r: "resetTimeout DEFAULT_OPTIONS = 30000" by (simp add: DEFAULT_OPTIONS_def)
  from three_failures_open[OF assms]
  have "getState opened halfOpen c1 = ''CLOSED''" "getState opened halfOpen c2 = ''CLOSED''"
    "getState opened halfOpen c3 = ''OPEN''" "c_lastTransition c3 = t3"
    by (simp_all add: getState_state)
  moreover have "getState opened halfOpen (new_circuit DEFAULT_OPTIONS) = ''CLOSED''"
    by (simp add: getState_state new_circuit_def)
  moreover have "\<forall>c now. c_state c = OPEN \<and> now < c_lastTransition c + 30000 \<longrightarrow>
           getState opened halfOpen (tick DEFAULT_OPTIONS now c) = ''OPEN''"
    using reset_pending[of _ _ DEFAULT_OPTIONS] by (simp add: getState_state r)
  moreover have "\<forall>c now. c_state c = OPEN \<and> c_lastTransition c + 30000 \<le> now \<longrightarrow>
           getState opened halfOpen (tick DEFAULT_OPTIONS now c) = ''HALF_OPEN''"
    using reset_elapsed[of _ DEFAULT_OPTIONS] by (simp add: getState_state r)
  moreover have "\<forall>c now (v :: 'a). c_state (tick DEFAULT_OPTIONS now c) = HALF_OPEN \<longrightarrow>
           snd (execute DEFAULT_OPTIONS fb now (Returns v) c) = Fulfilled v
           \<and> getState opened halfOpen (fst (execute DEFAULT_OPTIONS fb now (Returns v) c))
               = ''CLOSED''
           \<and> failure_streak (fst (execute DEFAULT_OPTIONS fb now (Returns v) c)) = 0"
    using probe_success[of DEFAULT_OPTIONS _ _ fb] by (simp add: getState_state)
  moreover have "\<forall>c now (k :: 'a call).
           c_state (tick DEFAULT_OPTIONS now c) = HALF_OPEN \<and> call_outcome k \<noteq> Success \<longrightarrow>
           getState opened halfOpen (fst (execute DEFAULT_OPTIONS fb now k c)) = ''OPEN''
           \<and> c_lastTransition (fst (execute DEFAULT_OPTIONS fb now k c)) = now"
    using probe_failure[of DEFAULT_OPTIONS _ _ _ fb] by (simp add: getState_state)
  ultimately show ?thesis using products_options by blast
qed

text \<open>
  The products breaker with three failed lookups at 0, 1000 and 2000 ms is \<open>OPEN\<close>; at
  32000 ms a successful probe closes it and a failing probe opens it again.
\<close>

theorem breaker_state_machine_witness:
  "getState opened halfOpen tripped = ''OPEN''
   \<and> getState opened halfOpen (tick DEFAULT_OPTIONS 32000 tripped) = ''HALF_OPEN''
   \<and> getState opened halfOpen
       (fst (execute DEFAULT_OPTIONS (Some (productsFallback None)) 32000
               (Returns (JStr ''ok'')) tripped)) = ''CLOSED''
   \<and> getState opened halfOpen
       (fst (execute DEFAULT_OPTIONS (Some (productsFallback None)) 32000
               (Fails ''down'') tripped)) = ''OPEN''
   \<and> c_lastTransition
       (fst (execute DEFAULT_OPTIONS (Some (productsFallback None)) 32000
               (Fails ''down'') tripped)) = 32000"
proof -
  have f: "call_outcome (Fails ''down'' :: js call) \<noteq> Success" by simp
  have t: "(0::nat) \<le> 1000" "(1000::nat) \<le> 2000" "(2000::nat) < 0 + 10000" by simp_all
  note m = breaker_state_machine[OF f f f t refl refl refl,
      of "Some (productsFallback None)"]
  have o: "getState opened halfOpen tripped = ''OPEN''" and l: "c_lastTransition tripped = 2000"
    using m unfolding tripped_def by blast+
  have s: "c_state tripped = OPEN"
    using o by (cases "c_state tripped") (simp_all add: getState_state)
  have e: "c_lastTransition tripped + 30000 \<le> 32000" unfolding l by simp
  have h: "getState opened halfOpen (tick DEFAULT_OPTIONS 32000 tripped) = ''HALF_OPEN''"
    using m s e by blast
  have hs: "c_state (tick DEFAULT_OPTIONS 32000 tripped) = HALF_OPEN"
    using h by (cases "c_state (tick DEFAULT_OPTIONS 32000 tripped)")
      (simp_all add: getState_state)
  have "getState opened halfOpen
       (fst (execute DEFAULT_OPTIONS (Some (productsFallback None)) 32000
               (Returns (JStr ''ok'')) tripped)) = ''CLOSED''"
    using m hs by blast
  moreover have "getState opened halfOpen
       (fst (execute DEFAULT_OPTIONS (Some (productsFallback None)) 32000
               (Fails ''down'') tripped)) = ''OPEN''
     \<and> c_lastTransition
       (fst (execute DEFAULT_OPTIONS (Some (productsFallback None)) 32000
               (Fails ''down'') tripped)) = 32000"
    using m hs f by blast
  ultimately show ?thesis using o h by blast
qed

end
